theory Spec2Isabelle
  imports Complex_Main "HOL-Library.AList"
begin

section \<open>Python values\<close>

text \<open>
  The client handles decoded JSON: \<open>None\<close>, booleans, integers, floats, strings, lists
  and dictionaries with string keys. A float is an exact real number, one of the two
  infinities, or NaN; rounding to 53 bits is not modelled (no property below depends on
  it), the special values are. A dictionary is an association list read with
  \<open>map_of\<close>.
\<close>

datatype pyfloat = Finite real | PosInf | NegInf | NaN

datatype pyval =
    PNone
  | PBool bool
  | PInt int
  | PFloat pyfloat
  | PStr string
  | PList "pyval list"
  | PDict "(string \<times> pyval) list"

text \<open>The exceptions the client raises or lets through.\<close>

datatype exc =
    TurkovAPIError
  | TurkovAPIAuthenticationError
  | TurkovAPIValueError
  | HTTPForbidden
  | HTTPUnauthorized
  | KeyError
  | ValueError
  | TypeError
  | OverflowError
  | RuntimeError
  | UnboundLocalError
  | ClientError
  | TimeoutError
  | JSONDecodeError
  | ContentTypeError
  | CancelledError

text \<open>Python's \<open>==\<close> on floats: NaN equals nothing, itself included.\<close>

fun float_eq :: "pyfloat \<Rightarrow> pyfloat \<Rightarrow> bool" where
  "float_eq (Finite a) (Finite b) = (a = b)"
| "float_eq PosInf PosInf = True"
| "float_eq NegInf NegInf = True"
| "float_eq _ _ = False"

text \<open>
  Booleans, integers and floats compare by numeric value (\<open>True == 1 == 1.0\<close>);
  \<open>num_of\<close> is that value.
\<close>

fun num_of :: "pyval \<Rightarrow> pyfloat option" where
  "num_of (PBool b) = Some (Finite (if b then 1 else 0))"
| "num_of (PInt i) = Some (Finite (of_int i))"
| "num_of (PFloat f) = Some f"
| "num_of _ = None"

function (sequential) py_eq :: "pyval \<Rightarrow> pyval \<Rightarrow> bool" where
  "py_eq PNone PNone = True"
| "py_eq (PStr s) (PStr t) = (s = t)"
| "py_eq (PList xs) (PList ys) =
     (length xs = length ys \<and> list_all (\<lambda>(x, y). py_eq x y) (zip xs ys))"
| "py_eq (PDict xs) (PDict ys) =
     (list_all (\<lambda>(k, v). case map_of ys k of None \<Rightarrow> False | Some w \<Rightarrow> py_eq v w) xs
      \<and> list_all (\<lambda>(k, w). map_of xs k \<noteq> None) ys)"
| "py_eq a b =
     (case (num_of a, num_of b) of (Some x, Some y) \<Rightarrow> float_eq x y | _ \<Rightarrow> False)"
  by pat_completeness auto
termination
proof (relation "measure (\<lambda>(a, b). size a)", goal_cases)
  case 1
  show ?case by simp
next
  case (2 xs ys z x y)
  then have "x \<in> set xs" by (auto dest: set_zip_leftD)
  then have "size x \<le> size_list size xs" by (simp add: size_list_estimation')
  then show ?case by simp
next
  case (3 xs ys z k v w)
  then have "(k, v) \<in> set xs" by simp
  then have "size_prod (\<lambda>_. 0) size (k, v) \<le> size_list (size_prod (\<lambda>_. 0) size) xs"
    by (simp add: size_list_estimation')
  then show ?case by simp
qed

definition py_ne :: "pyval \<Rightarrow> pyval \<Rightarrow> bool" where
  "py_ne a b = (\<not> py_eq a b)"

text \<open>Truthiness, as \<open>bool(x)\<close>, \<open>not x\<close> and \<open>if x\<close> read it.\<close>

fun truthy :: "pyval \<Rightarrow> bool" where
  "truthy PNone = False"
| "truthy (PBool b) = b"
| "truthy (PInt i) = (i \<noteq> 0)"
| "truthy (PFloat (Finite r)) = (r \<noteq> 0)"
| "truthy (PFloat _) = True"
| "truthy (PStr s) = (s \<noteq> [])"
| "truthy (PList xs) = (xs \<noteq> [])"
| "truthy (PDict kvs) = (kvs \<noteq> [])"

text \<open>A token or host of type \<open>Optional[str]\<close> is falsy when \<open>None\<close> or empty.\<close>

fun truthy_str :: "string option \<Rightarrow> bool" where
  "truthy_str None = False"
| "truthy_str (Some s) = (s \<noteq> [])"

section \<open>Built-in conversions\<close>

text \<open>
  Parsing a string as a number, printing a value that is not a string, and
  \<open>json.loads\<close> belong to the Python library: they are parameters. \<open>None\<close>
  stands for the \<open>ValueError\<close> (for \<open>loads\<close>, the \<open>JSONDecodeError\<close>) the library
  raises on a string it cannot read.
\<close>

record builtins =
  float_of_str :: "string \<Rightarrow> pyfloat option"
  int_of_str :: "string \<Rightarrow> int option"
  str_of :: "pyval \<Rightarrow> string"
  loads :: "string \<Rightarrow> pyval option"

definition exc_bind :: "exc + 'a \<Rightarrow> ('a \<Rightarrow> exc + 'b) \<Rightarrow> exc + 'b" where
  "exc_bind m f = (case m of Inl e \<Rightarrow> Inl e | Inr x \<Rightarrow> f x)"

text \<open>\<open>float(x)\<close>: an integer too large for a double raises \<open>OverflowError\<close>.\<close>

fun py_float :: "builtins \<Rightarrow> pyval \<Rightarrow> exc + pyfloat" where
  "py_float B PNone = Inl TypeError"
| "py_float B (PBool b) = Inr (Finite (if b then 1 else 0))"
| "py_float B (PInt i) =
     (if \<bar>i\<bar> < 2 ^ 1024 - 2 ^ 970 then Inr (Finite (of_int i)) else Inl OverflowError)"
| "py_float B (PFloat f) = Inr f"
| "py_float B (PStr s) =
     (case float_of_str B s of None \<Rightarrow> Inl ValueError | Some f \<Rightarrow> Inr f)"
| "py_float B (PList xs) = Inl TypeError"
| "py_float B (PDict kvs) = Inl TypeError"

text \<open>\<open>int(x)\<close>: a float is truncated towards zero.\<close>

fun py_int :: "builtins \<Rightarrow> pyval \<Rightarrow> exc + int" where
  "py_int B PNone = Inl TypeError"
| "py_int B (PBool b) = Inr (if b then 1 else 0)"
| "py_int B (PInt i) = Inr i"
| "py_int B (PFloat (Finite r)) = Inr (if 0 \<le> r then \<lfloor>r\<rfloor> else \<lceil>r\<rceil>)"
| "py_int B (PFloat NaN) = Inl ValueError"
| "py_int B (PFloat _) = Inl OverflowError"
| "py_int B (PStr s) =
     (case int_of_str B s of None \<Rightarrow> Inl ValueError | Some i \<Rightarrow> Inr i)"
| "py_int B (PList xs) = Inl TypeError"
| "py_int B (PDict kvs) = Inl TypeError"

fun py_str :: "builtins \<Rightarrow> pyval \<Rightarrow> string" where
  "py_str B (PStr s) = s"
| "py_str B v = str_of B v"

text \<open>\<open>x / 10\<close> on a float.\<close>

fun float_div10 :: "pyfloat \<Rightarrow> pyfloat" where
  "float_div10 (Finite r) = Finite (r / 10)"
| "float_div10 f = f"

text \<open>\<open>data[key]\<close> with a string key: only a dictionary can be read that way.\<close>

fun subscript :: "pyval \<Rightarrow> string \<Rightarrow> exc + pyval" where
  "subscript (PDict kvs) k = (case map_of kvs k of None \<Rightarrow> Inl KeyError | Some v \<Rightarrow> Inr v)"
| "subscript _ k = Inl TypeError"

section \<open>Devices\<close>

text \<open>
  \<open>dev_api\<close> and \<open>dev_session\<close> say whether \<open>_api\<close> and \<open>_session\<close> are set. The
  state attributes are read and written by name (\<open>getattr\<close>, \<open>setattr\<close>): \<open>attrs\<close>.
\<close>

record device =
  dev_id :: "string option"
  dev_api :: bool
  dev_session :: bool
  host :: "string option"
  port :: int
  serial_number :: "string option"
  pin :: "string option"
  dev_type :: "string option"
  dev_name :: "string option"
  firmware_version :: "string option"
  attrs :: "string \<Rightarrow> pyval"

text \<open>\<open>TurkovDevice(id_, self)\<close>, as the list sync creates it.\<close>

definition new_device :: "string \<Rightarrow> device" where
  "new_device i =
     \<lparr>dev_id = Some i, dev_api = True, dev_session = False, host = None, port = 80,
      serial_number = None, pin = None, dev_type = None, dev_name = None,
      firmware_version = None, attrs = (\<lambda>_. PNone)\<rparr>"

section \<open>Account session\<close>

text \<open>
  The registry \<open>devices\<close> is a Python dictionary: an association list in insertion
  order, written with \<open>AList.update\<close>.
\<close>

record session =
  handle_authentication :: bool
  user_email :: string
  password :: string
  access_token :: pyval
  access_token_expires_at :: "int option"
  refresh_token :: pyval
  refresh_token_expires_at :: "int option"
  first_name :: "string option"
  last_name :: "string option"
  middle_name :: "string option"
  request_history :: "string \<rightharpoonup> string"
  devices :: "(string \<times> device) list"

text \<open>
  \<open>utcnow().timestamp()\<close> is an input: the argument \<open>now\<close>. Python compares an
  \<open>int\<close> with a \<open>float\<close> exactly, so the comparison is that of the real numbers.
\<close>

definition access_token_needs_update :: "session \<Rightarrow> real \<Rightarrow> bool" where
  "access_token_needs_update s now =
     (if \<not> truthy (access_token s) then True
      else case access_token_expires_at s of
             None \<Rightarrow> True
           | Some e \<Rightarrow> of_int (e - 60) < now)"

definition refresh_token_needs_update :: "session \<Rightarrow> real \<Rightarrow> bool" where
  "refresh_token_needs_update s now =
     (if \<not> truthy (refresh_token s) then True
      else case refresh_token_expires_at s of
             None \<Rightarrow> True
           | Some e \<Rightarrow> of_int (e - 60) < now)"

subsection \<open>Authentication exchanges\<close>

text \<open>
  The four reads of the \<open>try\<close> block of \<open>_process_auth_request\<close>, in its order; the
  first one that raises decides the exception.
\<close>

definition extract_auth_data :: "builtins \<Rightarrow> pyval \<Rightarrow> exc + (pyval \<times> int \<times> pyval \<times> int)" where
  "extract_auth_data B data =
     exc_bind (subscript data ''accessToken'') (\<lambda>atok.
     exc_bind (exc_bind (subscript data ''accessTokenExpiresAt'') (py_int B)) (\<lambda>aexp.
     exc_bind (subscript data ''refreshToken'') (\<lambda>rtok.
     exc_bind (exc_bind (subscript data ''refreshTokenExpiresAt'') (py_int B)) (\<lambda>rexp.
     Inr (atok, aexp, rtok, rexp)))))"

text \<open>
  \<open>_process_auth_request\<close>. \<open>request\<close> is what \<open>await response.json()\<close> gives: the
  decoded body or the exception raised. The result is the session afterwards and the
  exception raised, if any.
\<close>

definition process_auth_request ::
  "builtins \<Rightarrow> session \<Rightarrow> exc + pyval \<Rightarrow> real \<Rightarrow> session \<times> exc option" where
  "process_auth_request B s request current_timestamp =
     (case request of
        Inl e \<Rightarrow>
          if e = ContentTypeError \<or> e = JSONDecodeError then (s, Some TurkovAPIAuthenticationError)
          else if e = ClientError \<or> e = TimeoutError then (s, Some TurkovAPIAuthenticationError)
          else (s, Some e)
      | Inr data \<Rightarrow>
          (case extract_auth_data B data of
             Inl e \<Rightarrow>
               if e = KeyError then (s, Some TurkovAPIAuthenticationError)
               else if e = ValueError \<or> e = TypeError then (s, Some TurkovAPIAuthenticationError)
               else (s, Some e)
           | Inr (atok, aexp, rtok, rexp) \<Rightarrow>
               if \<not> (truthy atok \<or> truthy rtok) then (s, Some TurkovAPIAuthenticationError)
               else if of_int aexp < current_timestamp then (s, Some TurkovAPIAuthenticationError)
               else if of_int rexp < current_timestamp then (s, Some TurkovAPIAuthenticationError)
               else (s\<lparr>access_token := atok, refresh_token := rtok,
                       access_token_expires_at := Some aexp,
                       refresh_token_expires_at := Some rexp\<rparr>, None)))"

text \<open>
  A request has two stages: \<open>session.post\<close> or \<open>session.get\<close> may raise before there is
  a response (outer \<open>Inl\<close>); with a response, reading its body may raise (inner \<open>Inl\<close>).
  The first stage is outside the \<open>try\<close> of \<open>_process_auth_request\<close>.
\<close>

type_synonym exchange = "exc + (exc + pyval)"

definition authenticate_with_email ::
  "builtins \<Rightarrow> session \<Rightarrow> string option \<Rightarrow> string option \<Rightarrow> exchange \<Rightarrow> real
   \<Rightarrow> session \<times> exc option" where
  "authenticate_with_email B s email_arg password_arg response now =
     (let email = (if \<not> truthy_str email_arg then user_email s else the email_arg);
          pw = (if \<not> truthy_str password_arg then password s else the password_arg)
      in if \<not> (email \<noteq> [] \<and> pw \<noteq> []) then (s, Some ValueError)
         else case response of
                Inl e \<Rightarrow> (s, Some e)
              | Inr request \<Rightarrow> process_auth_request B s request now)"

text \<open>
  \<open>authenticate_with_token\<close>: \<open>now_check\<close> is the clock at the freshness check,
  \<open>now\<close> the clock when the response is validated.
\<close>

definition authenticate_with_token ::
  "builtins \<Rightarrow> session \<Rightarrow> pyval \<Rightarrow> real \<Rightarrow> exchange \<Rightarrow> real \<Rightarrow> session \<times> exc option" where
  "authenticate_with_token B s token_arg now_check response now =
     (if \<not> truthy token_arg \<and> refresh_token_needs_update s now_check then (s, Some RuntimeError)
      else case response of
             Inl e \<Rightarrow> (s, Some e)
           | Inr request \<Rightarrow> process_auth_request B s request now)"

text \<open>The clock readings and the two responses \<open>authenticate\<close> may consume.\<close>

record auth_env =
  now_refresh_check :: real
  now_token_check :: real
  token_response :: exchange
  now_token :: real
  signin_response :: exchange
  now_signin :: real

definition authenticate :: "builtins \<Rightarrow> auth_env \<Rightarrow> session \<Rightarrow> session \<times> exc option" where
  "authenticate B env s =
     (if \<not> refresh_token_needs_update s (now_refresh_check env) then
        (case authenticate_with_token B s PNone (now_token_check env)
                (token_response env) (now_token env) of
           (s', None) \<Rightarrow> (s', None)
         | (s', Some e) \<Rightarrow>
             if e = CancelledError then (s', Some e)
             else authenticate_with_email B s' None None (signin_response env) (now_signin env))
      else authenticate_with_email B s None None (signin_response env) (now_signin env))"

subsection \<open>The wrapper of authenticated operations\<close>

datatype event = Authenticate | Call

definition auth_class :: "exc \<Rightarrow> bool" where
  "auth_class e = (e = TurkovAPIAuthenticationError \<or> e = HTTPForbidden \<or> e = HTTPUnauthorized)"

text \<open>
  \<open>_handle_preliminary_auth\<close>. \<open>auth\<close> is \<open>self.authenticate\<close>; \<open>fn n\<close> is the
  \<open>n\<close>-th invocation of the wrapped operation (the server need not answer the retry
  as it answered the first request). The events are the calls made, in order.
\<close>

definition handle_preliminary_auth ::
  "(session \<Rightarrow> session \<times> exc option) \<Rightarrow> (nat \<Rightarrow> session \<Rightarrow> session \<times> (exc + 'a))
   \<Rightarrow> session \<Rightarrow> real \<Rightarrow> event list \<times> session \<times> (exc + 'a)" where
  "handle_preliminary_auth auth fn s now =
     (let handle = handle_authentication s;
          pre = (if handle \<and> access_token_needs_update s now
                 then (case auth s of (s1, r) \<Rightarrow> ([Authenticate], s1, r, True))
                 else ([], s, None, False))
      in case pre of
           (ev, s1, Some e, attempted) \<Rightarrow> (ev, s1, Inl e)
         | (ev, s1, None, authentication_attempted) \<Rightarrow>
             (case fn 0 s1 of
                (s2, Inr r) \<Rightarrow> (ev @ [Call], s2, Inr r)
              | (s2, Inl e) \<Rightarrow>
                  if auth_class e then
                    (if authentication_attempted \<or> \<not> handle
                     then (ev @ [Call], s2, Inl TurkovAPIAuthenticationError)
                     else (case auth s2 of
                             (s3, Some e') \<Rightarrow> (ev @ [Call, Authenticate], s3, Inl e')
                           | (s3, None) \<Rightarrow>
                               (case fn 1 s3 of
                                  (s4, r) \<Rightarrow> (ev @ [Call, Authenticate, Call], s4, r))))
                  else (ev @ [Call], s2, Inl e)))"

section \<open>Device registry\<close>

text \<open>
  An HTTP response, as far as the client reads it: the status, the \<open>ETag\<close> header if
  there is one, and what \<open>await response.json()\<close> gives (the decoded body or the
  exception). A request that raises before there is a response is \<open>Inl\<close>.
\<close>

record 'a response =
  status :: int
  etag :: "string option"
  body :: "exc + 'a"

text \<open>
  \<open>DeviceDataResponseDict\<close> and \<open>UserDataResponseDict\<close>, every key optional: \<open>None\<close>
  is a key that is not in the dictionary. A value of type \<open>Optional[str]\<close> under a
  key that is there is the inner option.
\<close>

record device_data =
  dd_id :: "string option"
  dd_serialNumber :: "string option option"
  dd_pin :: "string option option"
  dd_deviceType :: "string option option"
  dd_deviceName :: "string option option"
  dd_firmVer :: "string option option"

record user_data =
  ud_devices :: "device_data list option"
  ud_userEmail :: "string option"
  ud_firstName :: "string option"
  ud_lastName :: "string option"
  ud_fathersName :: "string option"

text \<open>The five \<open>if key in device_data\<close> assignments, in the order of the source.\<close>

definition apply_device_data :: "device_data \<Rightarrow> device \<Rightarrow> device" where
  "apply_device_data dd d =
     (let d1 = (case dd_deviceType dd of None \<Rightarrow> d | Some v \<Rightarrow> d\<lparr>dev_type := v\<rparr>);
          d2 = (case dd_deviceName dd of None \<Rightarrow> d1 | Some v \<Rightarrow> d1\<lparr>dev_name := v\<rparr>);
          d3 = (case dd_serialNumber dd of None \<Rightarrow> d2 | Some v \<Rightarrow> d2\<lparr>serial_number := v\<rparr>);
          d4 = (case dd_pin dd of None \<Rightarrow> d3 | Some v \<Rightarrow> d3\<lparr>pin := v\<rparr>)
      in (case dd_firmVer dd of None \<Rightarrow> d4 | Some v \<Rightarrow> d4\<lparr>firmware_version := v\<rparr>))"

text \<open>
  The loop over the reported entries. An entry without \<open>_id\<close>, or with an empty one,
  is skipped; an id already in the registry leaves \<open>leftover_devices\<close>.
\<close>

fun sync_devices ::
  "(string \<times> device) list \<Rightarrow> string set \<Rightarrow> device_data list
   \<Rightarrow> (string \<times> device) list \<times> string set" where
  "sync_devices existing_devices leftover_devices [] = (existing_devices, leftover_devices)"
| "sync_devices existing_devices leftover_devices (dd # rest) =
     (case dd_id dd of
        None \<Rightarrow> sync_devices existing_devices leftover_devices rest
      | Some i \<Rightarrow>
          if i = [] then sync_devices existing_devices leftover_devices rest
          else (case map_of existing_devices i of
                  Some d \<Rightarrow>
                    sync_devices (AList.update i (apply_device_data dd d) existing_devices)
                      (leftover_devices - {i}) rest
                | None \<Rightarrow>
                    sync_devices
                      (AList.update i (apply_device_data dd (new_device i)) existing_devices)
                      leftover_devices rest))"

text \<open>
  \<open>update_user_data\<close>, without its wrapper. A missing top-level key reaches a handler
  that formats the unbound name \<open>exp\<close>: the exception is \<open>UnboundLocalError\<close>.
  Deleting the leftover ids one by one, in whatever order the set gives them, keeps the
  entries whose key is not a leftover.
\<close>

definition update_user_data ::
  "session \<Rightarrow> bool \<Rightarrow> exc + user_data response \<Rightarrow> session \<times> exc option" where
  "update_user_data s force request =
     (case request of
        Inl e \<Rightarrow> (s, Some e)
      | Inr resp \<Rightarrow>
          if \<not> force \<and> status resp = 304 then (s, None)
          else (case body resp of
                  Inl e \<Rightarrow>
                    if e = JSONDecodeError \<or> e = ContentTypeError
                    then (s, Some TurkovAPIAuthenticationError) else (s, Some e)
                | Inr ud \<Rightarrow>
                    (case (ud_devices ud, ud_userEmail ud, ud_firstName ud, ud_lastName ud,
                           ud_fathersName ud) of
                       (Some device_datum, Some ue, Some fnm, Some lnm, Some mnm) \<Rightarrow>
                         (let s1 = s\<lparr>user_email := ue, first_name := Some fnm,
                                     last_name := Some lnm, middle_name := Some mnm\<rparr>;
                              (existing_devices, leftover_devices) =
                                 sync_devices (devices s1) (set (map fst (devices s1))) device_datum;
                              s2 = (if truthy_str (etag resp)
                                    then s1\<lparr>request_history :=
                                            (request_history s1)(''user_data'' \<mapsto> the (etag resp))\<rparr>
                                    else s1)
                          in (s2\<lparr>devices :=
                                  filter (\<lambda>(k, d). k \<notin> leftover_devices) existing_devices\<rparr>, None))
                     | _ \<Rightarrow> (s, Some UnboundLocalError))))"

text \<open>
  \<open>update_user_data\<close> as decorated: \<open>requests n\<close> is the outcome of the HTTP
  request of the \<open>n\<close>-th invocation, and \<open>authenticate\<close> runs in the environment
  \<open>env\<close>.
\<close>

definition run_update_user_data ::
  "(nat \<Rightarrow> exc + user_data response) \<Rightarrow> bool \<Rightarrow> nat \<Rightarrow> session \<Rightarrow> session \<times> (exc + unit)" where
  "run_update_user_data requests force n s =
     (case update_user_data s force (requests n) of
        (s', None) \<Rightarrow> (s', Inr ())
      | (s', Some e) \<Rightarrow> (s', Inl e))"

definition update_user_data_wrapped ::
  "builtins \<Rightarrow> auth_env \<Rightarrow> (nat \<Rightarrow> exc + user_data response) \<Rightarrow> bool \<Rightarrow> session \<Rightarrow> real
   \<Rightarrow> event list \<times> session \<times> (exc + unit)" where
  "update_user_data_wrapped B env requests force s now =
     handle_preliminary_auth (authenticate B env) (run_update_user_data requests force) s now"

text \<open>
  \<open>get_device_state\<close>, without its wrapper. \<open>json.loads\<close> of a value that is not a
  string raises \<open>TypeError\<close>. \<open>PNone\<close> is the \<open>None\<close> returned on \<open>304\<close>.
\<close>

definition get_device_state ::
  "builtins \<Rightarrow> session \<Rightarrow> string \<Rightarrow> bool \<Rightarrow> exc + pyval response
   \<Rightarrow> session \<times> (exc + pyval)" where
  "get_device_state B s device_id force request =
     (case request of
        Inl e \<Rightarrow> (s, Inl e)
      | Inr resp \<Rightarrow>
          if \<not> force \<and> status resp = 304 then (s, Inr PNone)
          else (case body resp of
                  Inl e \<Rightarrow>
                    if e = ContentTypeError \<or> e = JSONDecodeError
                    then (s, Inl TurkovAPIError) else (s, Inl e)
                | Inr device_data_list \<Rightarrow>
                    (case device_data_list of
                       PList xs \<Rightarrow>
                         if xs = [] then (s, Inl TurkovAPIError)
                         else (case last xs of
                                 PStr device_data_text \<Rightarrow>
                                   (case loads B device_data_text of
                                      None \<Rightarrow> (s, Inl TurkovAPIError)
                                    | Some dd \<Rightarrow>
                                        (case dd of
                                           PDict kvs \<Rightarrow>
                                             ((if truthy_str (etag resp)
                                               then s\<lparr>request_history :=
                                                      (request_history s)
                                                        (''device_state__'' @ device_id
                                                           \<mapsto> the (etag resp))\<rparr>
                                               else s), Inr dd)
                                         | _ \<Rightarrow> (s, Inl TurkovAPIError)))
                               | _ \<Rightarrow> (s, Inl TypeError))
                     | _ \<Rightarrow> (s, Inl TurkovAPIError))))"

section \<open>Device transport\<close>

text \<open>
  The requests a device sends, in order. The outcome of the local request and of the
  cloud call are inputs: \<open>local\<close>, and \<open>cloud\<close> given \<open>force\<close>.
\<close>

datatype request =
    LocalState
  | CloudState
  | LocalCommand string pyval
  | CloudCommand string pyval

text \<open>\<open>except (aiohttp.ClientError, TimeoutError, JSONDecodeError)\<close>, with the subclass.\<close>

definition local_failure :: "exc \<Rightarrow> bool" where
  "local_failure e =
     (e = ClientError \<or> e = ContentTypeError \<or> e = TimeoutError \<or> e = JSONDecodeError)"

definition get_state_local :: "device \<Rightarrow> exc + pyval \<Rightarrow> request list \<times> (exc + pyval)" where
  "get_state_local dev local =
     (if \<not> truthy_str (host dev) then ([], Inl RuntimeError)
      else if \<not> (dev_session dev \<or> dev_api dev) then ([], Inl RuntimeError)
      else ([LocalState], local))"

definition get_state ::
  "device \<Rightarrow> bool \<Rightarrow> exc + pyval \<Rightarrow> (bool \<Rightarrow> exc + pyval) \<Rightarrow> request list \<times> (exc + pyval)" where
  "get_state dev force local cloud =
     (let first_stage =
            (if truthy_str (host dev) then
               (case get_state_local dev local of
                  (ev, Inr data) \<Rightarrow> (ev, Some (Inr data))
                | (ev, Inl e) \<Rightarrow>
                    if local_failure e
                    then (if \<not> dev_api dev then (ev, Some (Inl e)) else (ev, None))
                    else (ev, Some (Inl e)))
             else ([], None))
      in case first_stage of
           (ev, Some r) \<Rightarrow> (ev, r)
         | (ev, None) \<Rightarrow>
             if dev_api dev then (ev @ [CloudState], cloud force)
             else (ev, Inl TurkovAPIError))"

definition set_value_local ::
  "device \<Rightarrow> string \<Rightarrow> pyval \<Rightarrow> exc + pyval \<Rightarrow> request list \<times> (exc + pyval)" where
  "set_value_local dev key v local =
     (if \<not> truthy_str (host dev) then ([], Inl RuntimeError)
      else if \<not> (dev_session dev \<or> dev_api dev) then ([], Inl RuntimeError)
      else ([LocalCommand key v], local))"

definition set_value ::
  "device \<Rightarrow> string \<Rightarrow> pyval \<Rightarrow> exc + pyval \<Rightarrow> exc + pyval \<Rightarrow> request list \<times> (exc + pyval)" where
  "set_value dev key v local cloud =
     (let first_stage =
            (if truthy_str (host dev) then
               (case set_value_local dev key v local of
                  (ev, Inr data) \<Rightarrow> (ev, Some (Inr data))
                | (ev, Inl e) \<Rightarrow>
                    if e = CancelledError then (ev, Some (Inl e))
                    else if local_failure e
                    then (if \<not> dev_api dev then (ev, Some (Inl e)) else (ev, None))
                    else (ev, Some (Inl e)))
             else ([], None))
      in case first_stage of
           (ev, Some r) \<Rightarrow> (ev, r)
         | (ev, None) \<Rightarrow>
             if dev_api dev then (ev @ [CloudCommand key v], cloud)
             else (ev, Inl TurkovAPIError))"

section \<open>State reconciliation\<close>

text \<open>
  The second component of an \<open>ATTRIBUTE_KEY_MAPPING\<close> entry: \<open>None\<close>, \<open>False\<close>, or
  one of the callables \<open>str\<close>, \<open>float\<close>, \<open>int\<close>, \<open>bool\<close>, \<open>_float_less\<close>.
\<close>

datatype converter =
    NoneConv | FalseConv | StrConv | FloatConv | IntConv | BoolConv | FloatLessConv

definition ATTRIBUTE_KEY_MAPPING :: "(string \<times> string \<times> converter) list" where
  "ATTRIBUTE_KEY_MAPPING =
     [(''is_on'', ''on'', NoneConv),
      (''fan_speed'', ''fan_speed'', StrConv),
      (''fan_mode'', ''fan_mode'', NoneConv),
      (''target_temperature'', ''temp_sp'', FloatConv),
      (''selected_mode'', ''mode'', StrConv),
      (''setup'', ''setup'', StrConv),
      (''filter_life_percentage'', ''filter'', FloatConv),
      (''outdoor_temperature'', ''out_temp'', FloatLessConv),
      (''indoor_temperature'', ''in_temp'', FloatLessConv),
      (''image_url'', ''image'', FalseConv),
      (''indoor_humidity'', ''in_humid'', FloatLessConv),
      (''exhaust_temperature'', ''exh_temp'', FloatLessConv),
      (''air_pressure'', ''air_pres'', FloatConv),
      (''co2_level'', ''CO2_level'', FloatConv),
      (''current_temperature'', ''temp_curr'', FloatLessConv),
      (''current_humidity'', ''hum_curr'', FloatLessConv),
      (''target_humidity'', ''hum_sp'', IntConv),
      (''fireplace'', ''firep'', BoolConv),
      (''humidifier'', ''humib'', BoolConv),
      (''first_relay'', ''relay_1'', BoolConv),
      (''first_relay_name'', ''relay_1_name'', StrConv),
      (''second_relay'', ''relay_2'', BoolConv),
      (''second_relay_name'', ''relay_2_name'', StrConv)]"

definition IMAGES_BY_DEVICE_TYPE :: "(string \<times> string) list" where
  "IMAGES_BY_DEVICE_TYPE =
     [(''Zenit'', ''/images/zenit.jpg''),
      (''Capsule'', ''/images/capsule.jpg''),
      (''i-Vent'', ''/images/ivent.jpg'')]"

definition BASE_URL :: string where
  "BASE_URL = ''https://turkovwifi.ru''"

text \<open>\<open>converter(value)\<close> when the converter is callable, the value itself otherwise.\<close>

fun convert :: "builtins \<Rightarrow> converter \<Rightarrow> pyval \<Rightarrow> exc + pyval" where
  "convert B NoneConv v = Inr v"
| "convert B FalseConv v = Inr v"
| "convert B StrConv v = Inr (PStr (py_str B v))"
| "convert B FloatConv v = exc_bind (py_float B v) (\<lambda>f. Inr (PFloat f))"
| "convert B IntConv v = exc_bind (py_int B v) (\<lambda>i. Inr (PInt i))"
| "convert B BoolConv v = Inr (PBool (truthy v))"
| "convert B FloatLessConv v = exc_bind (py_float B v) (\<lambda>f. Inr (PFloat (float_div10 f)))"

text \<open>\<open>if value != getattr(self, name): set_attribute(name, value)\<close>.\<close>

definition set_if_differs ::
  "(string \<Rightarrow> pyval) \<times> string set \<Rightarrow> string \<Rightarrow> pyval \<Rightarrow> (string \<Rightarrow> pyval) \<times> string set" where
  "set_if_differs st attribute_name v =
     (case st of (a, changed_attributes) \<Rightarrow>
        if py_ne v (a attribute_name)
        then (a(attribute_name := v), insert attribute_name changed_attributes)
        else (a, changed_attributes))"

text \<open>
  The generic loop over the mapping. A converter that raises ends the call; the
  attributes assigned before stay assigned.
\<close>

fun generic_pass ::
  "builtins \<Rightarrow> bool \<Rightarrow> (string \<times> pyval) list \<Rightarrow> (string \<times> string \<times> converter) list
   \<Rightarrow> (string \<Rightarrow> pyval) \<times> string set \<Rightarrow> ((string \<Rightarrow> pyval) \<times> string set) \<times> exc option" where
  "generic_pass B mark device_data [] st = (st, None)"
| "generic_pass B mark device_data ((attribute_name, key, converter) # rest) st =
     (if converter = FalseConv then generic_pass B mark device_data rest st
      else (case map_of device_data key of
              None \<Rightarrow>
                if \<not> mark then generic_pass B mark device_data rest st
                else generic_pass B mark device_data rest (set_if_differs st attribute_name PNone)
            | Some raw \<Rightarrow>
                (case convert B converter raw of
                   Inl e \<Rightarrow> (st, Some e)
                 | Inr v \<Rightarrow>
                     generic_pass B mark device_data rest (set_if_differs st attribute_name v))))"

text \<open>
  The image URL computed from the payload, the device id and the device type. A
  truthy \<open>image\<close> on a device without an id, of a type without a default image, stays
  what the payload gave.
\<close>

definition resolve_image_url :: "builtins \<Rightarrow> device \<Rightarrow> (string \<times> pyval) list \<Rightarrow> pyval" where
  "resolve_image_url B dev device_data =
     (let image_url = (case map_of device_data ''image'' of
                         None \<Rightarrow> PNone
                       | Some v \<Rightarrow> if truthy v then v else PNone)
      in if truthy image_url \<and> truthy_str (dev_id dev)
         then PStr (BASE_URL @ ''/upload/'' @ the (dev_id dev) @ ''_'' @ py_str B image_url @ ''.jpg'')
         else (case dev_type dev of
                 None \<Rightarrow> image_url
               | Some t \<Rightarrow>
                   (case map_of IMAGES_BY_DEVICE_TYPE t of
                      None \<Rightarrow> image_url
                    | Some path \<Rightarrow>
                        if take 1 path = ''/'' then PStr (BASE_URL @ path) else PStr path)))"

text \<open>
  \<open>update_state\<close> after the fetch. A payload that is neither \<open>None\<close> nor a dictionary
  raises \<open>TypeError\<close> at the first \<open>device_data[key]\<close>.
\<close>

definition apply_state :: "builtins \<Rightarrow> device \<Rightarrow> bool \<Rightarrow> pyval \<Rightarrow> device \<times> (exc + string set)" where
  "apply_state B dev mark_as_none_if_not_present device_data =
     (case device_data of
        PNone \<Rightarrow> (dev, Inr {})
      | PDict kvs \<Rightarrow>
          (case generic_pass B mark_as_none_if_not_present kvs ATTRIBUTE_KEY_MAPPING
                  (attrs dev, {}) of
             ((a, changed_attributes), Some e) \<Rightarrow> (dev\<lparr>attrs := a\<rparr>, Inl e)
           | ((a, changed_attributes), None) \<Rightarrow>
               (let image_url = resolve_image_url B dev kvs
                in if (if mark_as_none_if_not_present
                       then image_url = PNone \<and> a ''image_url'' \<noteq> PNone
                       else py_ne (a ''image_url'') image_url)
                   then (dev\<lparr>attrs := a(''image_url'' := image_url)\<rparr>,
                         Inr (insert ''image_url'' changed_attributes))
                   else (dev\<lparr>attrs := a\<rparr>, Inr changed_attributes)))
      | _ \<Rightarrow> (dev, Inl TypeError))"

definition update_state ::
  "builtins \<Rightarrow> device \<Rightarrow> bool \<Rightarrow> bool \<Rightarrow> exc + pyval \<Rightarrow> (bool \<Rightarrow> exc + pyval)
   \<Rightarrow> device \<times> (exc + string set)" where
  "update_state B dev mark_as_none_if_not_present force local cloud =
     (case get_state dev force local cloud of
        (ev, Inl e) \<Rightarrow> (dev, Inl e)
      | (ev, Inr device_data) \<Rightarrow> apply_state B dev mark_as_none_if_not_present device_data)"

section \<open>Commands\<close>

definition turn_on :: "device \<Rightarrow> exc + pyval \<Rightarrow> exc + pyval \<Rightarrow> request list \<times> (exc + pyval)" where
  "turn_on dev local cloud = set_value dev ''on'' (PStr ''true'') local cloud"

definition turn_off :: "device \<Rightarrow> exc + pyval \<Rightarrow> exc + pyval \<Rightarrow> request list \<times> (exc + pyval)" where
  "turn_off dev local cloud = set_value dev ''on'' (PStr ''false'') local cloud"

text \<open>\<open>toggle\<close>: the argument \<open>PNone\<close> is the default \<open>turn_on=None\<close>.\<close>

definition toggle ::
  "device \<Rightarrow> pyval \<Rightarrow> exc + pyval \<Rightarrow> exc + pyval \<Rightarrow> request list \<times> (exc + pyval)" where
  "toggle dev turn_on_arg local cloud =
     (let t = (if turn_on_arg = PNone then attrs dev ''is_on'' else turn_on_arg)
      in if truthy t then turn_on dev local cloud else turn_off dev local cloud)"

section \<open>Notions used in the statements\<close>




text \<open>The test that guards the assignment of \<open>image_url\<close>.\<close>

definition image_url_differs :: "bool \<Rightarrow> pyval \<Rightarrow> pyval \<Rightarrow> bool" where
  "image_url_differs mark stored image_url =
     (if mark then image_url = PNone \<and> stored \<noteq> PNone else py_ne stored image_url)"

section \<open>Example inputs\<close>

text \<open>
  Library functions for the closed examples: they agree with Python on the few strings
  the examples hand them and refuse every other string.
\<close>

definition example_builtins :: builtins where
  "example_builtins =
     \<lparr>float_of_str = (\<lambda>t. if t = ''21.5'' then Some (Finite 21.5) else None),
      int_of_str = (\<lambda>t. if t = ''45'' then Some 45 else None),
      str_of = (\<lambda>v. if v = PInt 2 then ''2'' else ''None''),
      loads = (\<lambda>t. if t = ''{}'' then Some (PDict []) else None)\<rparr>"

definition example_session :: session where
  "example_session =
     \<lparr>handle_authentication = True, user_email = ''a@b.c'', password = ''pw'',
      access_token = PStr ''tok'', access_token_expires_at = Some 1060,
      refresh_token = PStr ''ref'', refresh_token_expires_at = Some 5000,
      first_name = None, last_name = None, middle_name = None,
      request_history = Map.empty, devices = []\<rparr>"


text \<open>
  A server that answers every user-data request with \<open>HTTPUnauthorized\<close>, while the
  token refresh succeeds with tokens that expire at 4000 and 9000.
\<close>

definition unauthorized :: "nat \<Rightarrow> exc + user_data response" where
  "unauthorized n = Inl HTTPUnauthorized"

definition refreshed_auth_data :: pyval where
  "refreshed_auth_data =
     PDict [(''accessToken'', PStr ''a2''), (''accessTokenExpiresAt'', PInt 4000),
            (''refreshToken'', PStr ''r2''), (''refreshTokenExpiresAt'', PInt 9000)]"

definition example_auth_env :: auth_env where
  "example_auth_env =
     \<lparr>now_refresh_check = 1000, now_token_check = 1000,
      token_response = Inr (Inr refreshed_auth_data), now_token = 1000,
      signin_response = Inl ClientError, now_signin = 1000\<rparr>"

definition refreshed_session :: session where
  "refreshed_session =
     example_session\<lparr>access_token := PStr ''a2'', refresh_token := PStr ''r2'',
                     access_token_expires_at := Some 4000,
                     refresh_token_expires_at := Some 9000\<rparr>"

text \<open>A device of the registry with a local address.\<close>

definition example_device :: device where
  "example_device = (new_device ''d1'')\<lparr>host := Some ''10.0.0.2''\<rparr>"

text \<open>A cloud state response: an array whose last element encodes the empty object.\<close>

definition example_state_response :: "pyval response" where
  "example_state_response =
     \<lparr>status = 200, etag = Some ''v1'',
      body = Inr (PList [PStr ''junk'', PStr ''{}''])\<rparr>"



text \<open>A cloud path that answers the same whatever \<open>force\<close> is.\<close>

definition always :: "exc + pyval \<Rightarrow> bool \<Rightarrow> exc + pyval" where
  "always r force = r"





definition image_payload :: pyval where
  "image_payload = PDict [(''image'', PStr ''pic'')]"

definition image_device :: device where
  "image_device =
     (new_device ''d1'')
       \<lparr>attrs := (attrs (new_device ''d1''))
          (''image_url'' := PStr ''https://turkovwifi.ru/upload/d1_pic.jpg'')\<rparr>"

section \<open>Token freshness\<close>

text \<open>
  C4, as the code has it: \<open>access_token_needs_update\<close> (and likewise
  \<open>refresh_token_needs_update\<close>) is true if and only if the stored token is \<open>None\<close> or
  empty, or no expiry is stored, or \<open>expiry - 60 < now\<close>. The comparison is strict.
\<close>

theorem needs_update_iff:
  "(access_token_needs_update s now \<longleftrightarrow>
      \<not> truthy (access_token s) \<or> access_token_expires_at s = None
      \<or> (\<exists>e. access_token_expires_at s = Some e \<and> of_int e - 60 < now))
   \<and> (refresh_token_needs_update s now \<longleftrightarrow>
      \<not> truthy (refresh_token s) \<or> refresh_token_expires_at s = None
      \<or> (\<exists>e. refresh_token_expires_at s = Some e \<and> of_int e - 60 < now))"
  by (auto simp: access_token_needs_update_def refresh_token_needs_update_def
      split: option.splits)

theorem needs_update_iff_witness:
  "access_token_needs_update example_session 1001
   \<and> \<not> access_token_needs_update example_session 1000
   \<and> \<not> refresh_token_needs_update example_session 1001"
  using needs_update_iff [of example_session 1001] needs_update_iff [of example_session 1000]
  by (simp add: example_session_def)

text \<open>
  C4 as stated fails at the boundary instant: with a token stored and
  \<open>expiry - 60 = now\<close> (expiry 1060, now 1000) the token does not need an update.
\<close>

theorem needs_update_boundary_counterexample:
  "truthy (access_token example_session)
   \<and> access_token_expires_at example_session = Some 1060
   \<and> (of_int 1060 - 60 :: real) \<le> 1000
   \<and> \<not> access_token_needs_update example_session 1000"
  by (simp add: example_session_def access_token_needs_update_def)

section \<open>Authentication exchanges\<close>







text \<open>An accepted response assigns the four fields together, from that response.\<close>

lemma process_auth_request_success:
  "process_auth_request B s request now = (s', None) \<Longrightarrow>
     \<exists>data atok aexp rtok rexp. request = Inr data
       \<and> extract_auth_data B data = Inr (atok, aexp, rtok, rexp)
       \<and> s' = s\<lparr>access_token := atok, refresh_token := rtok,
                 access_token_expires_at := Some aexp,
                 refresh_token_expires_at := Some rexp\<rparr>"
  by (auto simp: process_auth_request_def split: sum.splits if_splits prod.splits)




text \<open>An empty access token beside a non-empty refresh token is accepted as well.\<close>

lemma one_empty_token_accepted:
  "snd (process_auth_request example_builtins example_session
          (Inr (PDict [(''accessToken'', PStr []), (''accessTokenExpiresAt'', PInt 3000),
                       (''refreshToken'', PStr ''r''), (''refreshTokenExpiresAt'', PInt 3000)]))
          1000) = None"
  by (simp add: process_auth_request_def extract_auth_data_def exc_bind_def)



section \<open>The wrapper of authenticated operations\<close>

text \<open>One call of a wrapped operation authenticates at most once and calls at most twice.\<close>

lemma handle_preliminary_auth_bounded:
  "count_list (fst (handle_preliminary_auth auth fn s now)) Authenticate \<le> 1
   \<and> count_list (fst (handle_preliminary_auth auth fn s now)) Call \<le> 2"
  by (auto simp: handle_preliminary_auth_def Let_def
      split: prod.splits option.splits sum.splits)

text \<open>
  A failure of the authorization class after the preliminary authentication is
  surfaced as an authentication error, without a retry.
\<close>

lemma handle_preliminary_auth_attempted:
  assumes "handle_authentication s" and "access_token_needs_update s now"
    and "auth s = (s1, None)" and "fn 0 s1 = (s2, Inl e)" and "auth_class e"
  shows "handle_preliminary_auth auth fn s now
           = ([Authenticate, Call], s2, Inl TurkovAPIAuthenticationError)"
  using assms by (simp add: handle_preliminary_auth_def)

text \<open>
  With a fresh token, such a failure is followed by one authentication and one retry,
  and the call ends as the retry ends.
\<close>

lemma handle_preliminary_auth_retry:
  assumes "handle_authentication s" and "\<not> access_token_needs_update s now"
    and "fn 0 s = (s1, Inl e)" and "auth_class e"
    and "auth s1 = (s2, None)" and "fn 1 s2 = (s3, r)"
  shows "handle_preliminary_auth auth fn s now = ([Call, Authenticate, Call], s3, r)"
  using assms by (simp add: handle_preliminary_auth_def)

text \<open>
  When the authentication that follows such a failure raises, there is no retry and
  its exception is the outcome.
\<close>

lemma handle_preliminary_auth_reauth_fails:
  assumes "handle_authentication s" and "\<not> access_token_needs_update s now"
    and "fn 0 s = (s1, Inl e)" and "auth_class e" and "auth s1 = (s2, Some e')"
  shows "handle_preliminary_auth auth fn s now = ([Call, Authenticate], s2, Inl e')"
  using assms by (simp add: handle_preliminary_auth_def)

text \<open>
  C2 at a failing input: authentication handling is enabled, the access token is fresh
  (expiry 1060 at time 1000), the server answers \<open>HTTPUnauthorized\<close> to the user-data
  request and to its retry, and the token refresh in between succeeds. The decorated
  \<open>update_user_data\<close> makes one authentication and one retry, and then surfaces the
  retry's \<open>HTTPUnauthorized\<close> itself, not an authentication error as the branch for
  an earlier attempt does.
\<close>

theorem retry_failure_not_wrapped:
  "update_user_data_wrapped example_builtins example_auth_env unauthorized False
     example_session 1000
   = ([Call, Authenticate, Call], refreshed_session, Inl HTTPUnauthorized)"
  by (simp add: update_user_data_wrapped_def handle_preliminary_auth_def
      run_update_user_data_def update_user_data_def unauthorized_def auth_class_def
      authenticate_def authenticate_with_token_def process_auth_request_def
      extract_auth_data_def exc_bind_def refreshed_auth_data_def example_auth_env_def
      access_token_needs_update_def refresh_token_needs_update_def
      example_session_def refreshed_session_def)

section \<open>Device transport\<close>

text \<open>
  C6: for a device built with a session or an API reference, \<open>get_state\<close> sends the
  local request first exactly when a host is configured. A local answer is returned.
  On a local transport or decode failure it makes one cloud call if the device has an
  API reference, and otherwise raises the local error itself. Without a host it goes
  straight to the cloud, and without a host and an API reference it raises an error.
\<close>

theorem get_state_dispatch:
  assumes "dev_session dev \<or> dev_api dev"
  shows "(truthy_str (host dev) \<longrightarrow>
            fst (get_state dev force local cloud) \<noteq> []
            \<and> hd (fst (get_state dev force local cloud)) = LocalState)
       \<and> (\<not> truthy_str (host dev) \<longrightarrow>
            LocalState \<notin> set (fst (get_state dev force local cloud)))
       \<and> (\<forall>data. truthy_str (host dev) \<and> local = Inr data \<longrightarrow>
            get_state dev force local cloud = ([LocalState], Inr data))
       \<and> (\<forall>e. truthy_str (host dev) \<and> local = Inl e \<and> local_failure e \<and> dev_api dev \<longrightarrow>
            get_state dev force local cloud = ([LocalState, CloudState], cloud force))
       \<and> (\<forall>e. truthy_str (host dev) \<and> local = Inl e \<and> local_failure e \<and> \<not> dev_api dev \<longrightarrow>
            get_state dev force local cloud = ([LocalState], Inl e))
       \<and> (\<not> truthy_str (host dev) \<and> dev_api dev \<longrightarrow>
            get_state dev force local cloud = ([CloudState], cloud force))
       \<and> (\<not> truthy_str (host dev) \<and> \<not> dev_api dev \<longrightarrow>
            get_state dev force local cloud = ([], Inl TurkovAPIError))"
  using assms
  by (auto simp: get_state_def get_state_local_def Let_def split: sum.splits)

theorem get_state_dispatch_witness:
  "get_state example_device True (Inl TimeoutError) (always (Inr (PDict [])))
     = ([LocalState, CloudState], Inr (PDict []))
   \<and> get_state (example_device\<lparr>dev_api := False, dev_session := True\<rparr>) True
        (Inl TimeoutError) (always (Inr (PDict [])))
     = ([LocalState], Inl TimeoutError)"
  using get_state_dispatch [of example_device True "Inl TimeoutError" "always (Inr (PDict []))"]
    get_state_dispatch [of "example_device\<lparr>dev_api := False, dev_session := True\<rparr>" True
      "Inl TimeoutError" "always (Inr (PDict []))"]
  by (simp add: example_device_def new_device_def local_failure_def always_def)

section \<open>Cloud device state\<close>

text \<open>
  C7: when the response is not a \<open>304\<close> answered to a conditional request,
  \<open>get_device_state\<close> returns a value exactly when the body is an array that is not
  empty, whose last element is a string, which \<open>json.loads\<close> decodes to an object; it
  returns that object. In every other case it raises, and the session is unchanged.
\<close>

theorem get_device_state_shape:
  assumes "\<not> (\<not> force \<and> status resp = 304)"
  shows "(get_device_state B s device_id force (Inr resp) = (s', Inr v) \<longleftrightarrow>
            (\<exists>xs t kvs. body resp = Inr (PList xs) \<and> xs \<noteq> [] \<and> last xs = PStr t
               \<and> loads B t = Some (PDict kvs) \<and> v = PDict kvs
               \<and> s' = (if truthy_str (etag resp)
                        then s\<lparr>request_history :=
                               (request_history s)(''device_state__'' @ device_id
                                  \<mapsto> the (etag resp))\<rparr>
                        else s)))
       \<and> ((\<forall>s' v. get_device_state B s device_id force (Inr resp) \<noteq> (s', Inr v)) \<longrightarrow>
            (\<exists>e. get_device_state B s device_id force (Inr resp) = (s, Inl e)))"
  using assms
  by (auto simp: get_device_state_def split: sum.splits pyval.splits option.splits)

theorem get_device_state_shape_witness:
  "snd (get_device_state example_builtins example_session ''d1'' True
          (Inr example_state_response)) = Inr (PDict [])
   \<and> snd (get_device_state example_builtins example_session ''d1'' True
          (Inr (example_state_response\<lparr>body := Inr (PList [])\<rparr>))) = Inl TurkovAPIError"
  using get_device_state_shape [of True example_state_response example_builtins
      example_session "''d1''"]
  by (simp add: get_device_state_def example_state_response_def example_builtins_def)

section \<open>Commands\<close>

text \<open>
  C10: \<open>toggle\<close> without an argument sends the command \<open>on = true\<close> when the stored
  \<open>is_on\<close> is truthy and \<open>on = false\<close> otherwise: the command that matches the
  current state, not its negation. Every request it sends carries that command.
\<close>

theorem toggle_default:
  "toggle dev PNone local cloud =
     set_value dev ''on'' (PStr (if truthy (attrs dev ''is_on'') then ''true'' else ''false''))
       local cloud
   \<and> (\<forall>r \<in> set (fst (toggle dev PNone local cloud)).
         if truthy (attrs dev ''is_on'')
         then r = LocalCommand ''on'' (PStr ''true'') \<or> r = CloudCommand ''on'' (PStr ''true'')
         else r = LocalCommand ''on'' (PStr ''false'') \<or> r = CloudCommand ''on'' (PStr ''false''))"
  by (auto simp: toggle_def turn_on_def turn_off_def set_value_def set_value_local_def Let_def
      split: sum.splits if_splits)

theorem toggle_default_witness:
  "toggle (example_device\<lparr>attrs := (attrs example_device)(''is_on'' := PBool True)\<rparr>) PNone
     (Inr (PDict [])) (Inr PNone)
   = ([LocalCommand ''on'' (PStr ''true'')], Inr (PDict []))"
  using toggle_default [of "example_device\<lparr>attrs := (attrs example_device)(''is_on'' := PBool True)\<rparr>"
      "Inr (PDict [])" "Inr PNone"]
  by (simp add: example_device_def new_device_def set_value_def set_value_local_def)

section \<open>Device list synchronisation\<close>





















section \<open>State reconciliation\<close>

text \<open>
  A scalar equals itself, by Python's \<open>==\<close>, unless it is the float NaN.
\<close>

lemma py_eq_scalar:
  "py_eq PNone PNone" "py_eq (PBool b) (PBool b)" "py_eq (PInt i) (PInt i)"
  "py_eq (PStr t) (PStr t)" "py_eq (PFloat f) (PFloat f) \<longleftrightarrow> f \<noteq> NaN"
  by (simp_all, cases f, simp_all)

text \<open>An assignment to one attribute leaves every other attribute as it was.\<close>

lemma set_if_differs_other:
  assumes "n' \<noteq> n"
  shows "fst (set_if_differs st n' v) n = fst st n"
    and "(n \<in> snd (set_if_differs st n' v)) = (n \<in> snd st)"
  using assms by (cases st; simp add: set_if_differs_def)+


text \<open>
  The generic loop does not touch an attribute whose only mapping entries are marked
  \<open>False\<close>.
\<close>

lemma generic_pass_other:
  assumes "generic_pass B mark kvs m st = (st', r)"
    and "\<forall>(n', k, c) \<in> set m. n' = n \<longrightarrow> c = FalseConv"
  shows "fst st' n = fst st n \<and> (n \<in> snd st' \<longleftrightarrow> n \<in> snd st)"
  using assms
proof (induction m arbitrary: st)
  case Nil
  then show ?case by simp
next
  case (Cons x m)
  obtain n' k c where x: "x = (n', k, c)" by (cases x)
  have rest: "\<forall>(n', k, c) \<in> set m. n' = n \<longrightarrow> c = FalseConv"
    using Cons.prems(2) by simp
  show ?case
  proof (cases "c = FalseConv")
    case True
    then show ?thesis using Cons.prems(1) Cons.IH [OF _ rest] x by simp
  next
    case False
    then have ne: "n' \<noteq> n" using Cons.prems(2) x by auto
    show ?thesis
    proof (cases "map_of kvs k")
      case None
      show ?thesis
      proof (cases mark)
        case True
        then have "generic_pass B mark kvs m (set_if_differs st n' PNone) = (st', r)"
          using Cons.prems(1) x False None by simp
        from Cons.IH [OF this rest] show ?thesis
          unfolding set_if_differs_other [OF ne] .
      next
        case F: False
        then have "generic_pass B mark kvs m st = (st', r)"
          using Cons.prems(1) x False None by simp
        from Cons.IH [OF this rest] show ?thesis .
      qed
    next
      case (Some raw)
      show ?thesis
      proof (cases "convert B c raw")
        case (Inl e)
        then show ?thesis using Cons.prems(1) x False Some by simp
      next
        case (Inr v)
        then have "generic_pass B mark kvs m (set_if_differs st n' v) = (st', r)"
          using Cons.prems(1) x False Some by simp
        from Cons.IH [OF this rest] show ?thesis
          unfolding set_if_differs_other [OF ne] .
      qed
    qed
  qed
qed




lemma mapping_image_url:
  "\<forall>(n, k, c) \<in> set ATTRIBUTE_KEY_MAPPING. n = ''image_url'' \<longrightarrow> c = FalseConv"
  by (simp add: ATTRIBUTE_KEY_MAPPING_def)


lemma update_state_fetched:
  "snd (get_state dev force local cloud) = Inr data \<Longrightarrow>
     update_state B dev mark force local cloud = apply_state B dev mark data"
  by (cases "get_state dev force local cloud") (simp add: update_state_def)



lemma apply_state_dict:
  assumes "apply_state B dev mark (PDict kvs) = (dev', Inr changed)"
  obtains a ch where
    "generic_pass B mark kvs ATTRIBUTE_KEY_MAPPING (attrs dev, {}) = ((a, ch), None)"
    "a ''image_url'' = attrs dev ''image_url''" "''image_url'' \<notin> ch"
    "changed = (if image_url_differs mark (attrs dev ''image_url'') (resolve_image_url B dev kvs)
                then insert ''image_url'' ch else ch)"
    "dev' = dev\<lparr>attrs :=
               (if image_url_differs mark (attrs dev ''image_url'') (resolve_image_url B dev kvs)
                then a(''image_url'' := resolve_image_url B dev kvs) else a)\<rparr>"
proof -
  obtain a ch r where gp:
    "generic_pass B mark kvs ATTRIBUTE_KEY_MAPPING (attrs dev, {}) = ((a, ch), r)"
    by (metis surj_pair)
  have r: "r = None"
    using assms gp by (cases r) (simp_all add: apply_state_def)
  from generic_pass_other [OF gp mapping_image_url]
  have img: "a ''image_url'' = attrs dev ''image_url''" and notin: "''image_url'' \<notin> ch"
    by simp_all
  have "changed = (if image_url_differs mark (attrs dev ''image_url'') (resolve_image_url B dev kvs)
                then insert ''image_url'' ch else ch)"
    and "dev' = dev\<lparr>attrs :=
               (if image_url_differs mark (attrs dev ''image_url'') (resolve_image_url B dev kvs)
                then a(''image_url'' := resolve_image_url B dev kvs) else a)\<rparr>"
    using assms gp r img
    by (auto simp: apply_state_def Let_def image_url_differs_def split: if_splits)
  then show ?thesis using that gp r img notin by blast
qed





text \<open>
  C9, as the code has it: when \<open>update_state\<close> fetches a dictionary and returns a
  change set, \<open>image_url\<close> is assigned the computed URL and recorded, without the
  flag \<open>mark_as_none_if_not_present\<close>, exactly when the stored value differs from
  the computed one; with the flag, exactly when the computed value is \<open>None\<close> and
  the stored one is not. Otherwise the stored value stays.
\<close>

theorem image_url_change:
  assumes "update_state B dev mark force local cloud = (dev', Inr changed)"
    and "snd (get_state dev force local cloud) = Inr (PDict kvs)"
  shows "(''image_url'' \<in> changed \<longleftrightarrow>
            (if mark
             then resolve_image_url B dev kvs = PNone \<and> attrs dev ''image_url'' \<noteq> PNone
             else py_ne (attrs dev ''image_url'') (resolve_image_url B dev kvs)))
       \<and> attrs dev' ''image_url'' =
           (if ''image_url'' \<in> changed then resolve_image_url B dev kvs
            else attrs dev ''image_url'')"
proof -
  have as: "apply_state B dev mark (PDict kvs) = (dev', Inr changed)"
    using assms by (simp add: update_state_fetched)
  from as obtain a ch where
    "a ''image_url'' = attrs dev ''image_url''" and "''image_url'' \<notin> ch"
    and "changed = (if image_url_differs mark (attrs dev ''image_url'')
                         (resolve_image_url B dev kvs)
                    then insert ''image_url'' ch else ch)"
    and "dev' = dev\<lparr>attrs :=
               (if image_url_differs mark (attrs dev ''image_url'') (resolve_image_url B dev kvs)
                then a(''image_url'' := resolve_image_url B dev kvs) else a)\<rparr>"
    by (rule apply_state_dict)
  then show ?thesis by (auto simp: image_url_differs_def)
qed

lemma image_update:
  "update_state example_builtins (new_device ''d1'') False True (Inl ClientError)
     (always (Inr image_payload))
   = (image_device, Inr {''image_url''})"
  by (simp add: update_state_def get_state_def apply_state_def always_def image_payload_def
      image_device_def new_device_def ATTRIBUTE_KEY_MAPPING_def set_if_differs_def py_ne_def
      exc_bind_def resolve_image_url_def BASE_URL_def)

theorem image_url_change_witness:
  "update_state example_builtins (new_device ''d1'') False True (Inl ClientError)
     (always (Inr image_payload))
   = (image_device, Inr {''image_url''})
   \<and> attrs image_device ''image_url'' = PStr ''https://turkovwifi.ru/upload/d1_pic.jpg''"
proof -
  have fetched: "snd (get_state (new_device ''d1'') True (Inl ClientError)
                   (always (Inr image_payload))) = Inr (PDict [(''image'', PStr ''pic'')])"
    by (simp add: get_state_def new_device_def always_def image_payload_def)
  from image_url_change [OF image_update fetched]
  have "attrs image_device ''image_url'' =
          resolve_image_url example_builtins (new_device ''d1'') [(''image'', PStr ''pic'')]"
    by simp
  then show ?thesis
    using image_update by (simp add: resolve_image_url_def BASE_URL_def new_device_def)
qed

text \<open>
  C9 as stated fails with the flag set: the payload carries a custom image, the
  computed URL is not \<open>None\<close> and differs from the stored \<open>None\<close>, and the call
  neither assigns nor records \<open>image_url\<close>.
\<close>

theorem image_url_mark_counterexample:
  "resolve_image_url example_builtins (new_device ''d1'') [(''image'', PStr ''pic'')]
     = PStr ''https://turkovwifi.ru/upload/d1_pic.jpg''
   \<and> py_ne (attrs (new_device ''d1'') ''image_url'')
        (PStr ''https://turkovwifi.ru/upload/d1_pic.jpg'')
   \<and> update_state example_builtins (new_device ''d1'') True True (Inl ClientError)
       (always (Inr image_payload))
     = (new_device ''d1'', Inr {})"
  by (simp add: update_state_def get_state_def apply_state_def always_def image_payload_def
      new_device_def ATTRIBUTE_KEY_MAPPING_def set_if_differs_def py_ne_def
      exc_bind_def resolve_image_url_def BASE_URL_def)


end
